theory Spec2Isabelle
  imports Main
begin

section \<open>The OpenERP start/stop script (\<^verbatim>\<open>openerp.py\<close>)\<close>

text \<open>
  The script is a Python 2 program (\<^verbatim>\<open>from __future__ import with_statement\<close>): strings are
  byte strings, integers are unbounded. It talks to three things outside itself: the file
  system (\<^verbatim>\<open>os.path.exists\<close>, \<^verbatim>\<open>open\<close>, \<^verbatim>\<open>os.getcwd\<close>), the program
  \<^verbatim>\<open>start-stop-daemon\<close> which it runs through \<^verbatim>\<open>subprocess.Popen\<close>, and the log stream
  \<^verbatim>\<open>sys.stdout\<close>. The first two are read from a \<open>world\<close>; what the script does to the
  outside (the commands it runs, the lines it logs) is collected in a \<open>state\<close> that every
  function takes and returns.
\<close>

subsection \<open>Python values the script uses\<close>

text \<open>Exceptions that library calls of the script can raise; the script catches none.\<close>

datatype exn = IOError string | OSError string | ValueError string

text \<open>The double and the single quote, which a string literal cannot hold.\<close>

definition dq :: string where
  "dq = [CHR 0x22]"

definition sq :: string where
  "sq = [CHR 0x27]"

text \<open>\<^verbatim>\<open>'%d' % n\<close>: the decimal numeral of an integer.\<close>

fun nat_digits :: "nat \<Rightarrow> string" where
  "nat_digits n =
     (if n < 10 then [char_of (48 + n)]
      else nat_digits (n div 10) @ [char_of (48 + n mod 10)])"

declare nat_digits.simps [simp del]

definition str_int :: "int \<Rightarrow> string" where
  "str_int i = (if i < 0 then CHR ''-'' # nat_digits (nat (- i)) else nat_digits (nat i))"

text \<open>
  \<^verbatim>\<open>str.strip()\<close> without argument removes the six ASCII whitespace characters from both
  ends; \<^verbatim>\<open>file.readline()\<close> returns the text up to and including the first newline, or
  all of it when there is none.
\<close>

definition is_space :: "char \<Rightarrow> bool" where
  "is_space c \<longleftrightarrow> c \<in> set [CHR '' '', CHR 0x09, CHR 0x0A, CHR 0x0B, CHR 0x0C, CHR 0x0D]"

definition strip :: "string \<Rightarrow> string" where
  "strip s = rev (dropWhile is_space (rev (dropWhile is_space s)))"

fun readline :: "string \<Rightarrow> string" where
  "readline [] = []"
| "readline (c # cs) = (if c = CHR 0x0A then [c] else c # readline cs)"

text \<open>
  \<^verbatim>\<open>os.path.join(a, *p)\<close> of \<^verbatim>\<open>posixpath\<close>: a component that begins with a slash
  replaces what was joined so far; otherwise it is appended, after a slash unless the path
  is empty or already ends with one.
\<close>

definition join_step :: "string \<Rightarrow> string \<Rightarrow> string" where
  "join_step path b =
     (if b \<noteq> [] \<and> hd b = CHR ''/'' then b
      else if path = [] \<or> last path = CHR ''/'' then path @ b
      else path @ ''/'' @ b)"

definition os_path_join :: "string \<Rightarrow> string list \<Rightarrow> string" where
  "os_path_join a p = foldl join_step a p"

subsection \<open>The outside world and the script's effects\<close>

text \<open>
  \<open>run_command w history command\<close> stands for
  \<^verbatim>\<open>Popen(shlex.split(command), stdout=PIPE, stderr=PIPE)\<close> followed by
  \<^verbatim>\<open>communicate()\<close>: the return code, the captured standard output and the captured
  standard error of the command, or the exception raised on the way (\<^verbatim>\<open>ValueError\<close> from
  \<^verbatim>\<open>shlex.split\<close>, \<^verbatim>\<open>OSError\<close> from \<^verbatim>\<open>Popen\<close>). The answer may depend on the
  commands run before, \<open>history\<close>: stopping a process changes what the next stop finds.
  \<open>open_file w path\<close> is the content of the file, \<open>None\<close> when \<^verbatim>\<open>open(path)\<close> raises
  \<^verbatim>\<open>IOError\<close>.
\<close>

record world =
  path_exists :: "string \<Rightarrow> bool"
  open_file :: "string \<Rightarrow> string option"
  getcwd :: string
  run_command :: "string list \<Rightarrow> string \<Rightarrow> exn + (int \<times> string \<times> string)"

text \<open>The levels of \<^verbatim>\<open>logging\<close> the script uses, with their numbers.\<close>

datatype level = DEBUG | INFO | ERROR

fun level_no :: "level \<Rightarrow> nat" where
  "level_no DEBUG = 10"
| "level_no INFO = 20"
| "level_no ERROR = 40"

fun levelname :: "level \<Rightarrow> string" where
  "levelname DEBUG = ''DEBUG''"
| "levelname INFO = ''INFO''"
| "levelname ERROR = ''ERROR''"

text \<open>
  \<open>threshold\<close> is the level of the root logger, \<open>stdout\<close> the records written to
  \<^verbatim>\<open>sys.stdout\<close> in order, \<open>commands\<close> the command lines handed to \<^verbatim>\<open>Popen\<close> in order.
\<close>

record state =
  threshold :: level
  stdout :: "string list"
  commands :: "string list"

text \<open>
  \<^verbatim>\<open>logging.basicConfig(stream=sys.stdout, level=logging.INFO,
  format='%(levelname)s: %(message)s')\<close>: the state the script starts in.
\<close>

definition basicConfig :: state where
  "basicConfig = \<lparr>threshold = INFO, stdout = [], commands = []\<rparr>"

text \<open>\<^verbatim>\<open>logging.debug\<close>, \<^verbatim>\<open>logging.info\<close>, \<^verbatim>\<open>logging.error\<close>.\<close>

definition logging :: "level \<Rightarrow> string \<Rightarrow> state \<Rightarrow> state" where
  "logging lvl message st =
     (if level_no (threshold st) \<le> level_no lvl
      then st\<lparr>stdout := stdout st @ [levelname lvl @ '': '' @ message]\<rparr>
      else st)"

subsection \<open>The script\<close>

text \<open>\<^verbatim>\<open>START_COMMAND % {...}\<close> and \<^verbatim>\<open>STOP_COMMAND % {...}\<close>.\<close>

definition START_COMMAND :: "string \<Rightarrow> string \<Rightarrow> string \<Rightarrow> string" where
  "START_COMMAND script dir pidfile =
     ''start-stop-daemon --start --quiet --startas '' @ script @
     '' --make-pidfile --background --chdir '' @ dir @ '' --pidfile '' @ pidfile"

definition STOP_COMMAND :: "string \<Rightarrow> string" where
  "STOP_COMMAND pidfile =
     ''start-stop-daemon --stop --quiet --pidfile '' @ pidfile @ '' -R TERM/15/KILL/5''"

text \<open>\<^verbatim>\<open>exit(code, message)\<close>: log the message as an error and return the code.\<close>

definition exit :: "int \<Rightarrow> string \<Rightarrow> state \<Rightarrow> int \<times> state" where
  "exit code message st = (code, logging ERROR message st)"

text \<open>
  \<^verbatim>\<open>start(directory, program, pidfile)\<close> and \<^verbatim>\<open>stop(pidfile)\<close>. The result is the
  returned integer, or the exception that left the function.
\<close>

definition start :: "world \<Rightarrow> string \<Rightarrow> string \<Rightarrow> string \<Rightarrow> state \<Rightarrow> (exn + int) \<times> state" where
  "start w directory program pidfile st =
     (let command = START_COMMAND program directory pidfile;
          st1 = st\<lparr>commands := commands st @ [command]\<rparr>
      in case run_command w (commands st) command of
           Inl e \<Rightarrow> (Inl e, st1)
         | Inr (returncode, output, error) \<Rightarrow>
             (let st2 = logging DEBUG
                    (''Running '' @ dq @ command @ dq @ '', returncode='' @ str_int returncode @ ''.'') st1
              in if returncode = 1 then
                   (case exit returncode ''The process is already running !'' st2 of
                      (code, st3) \<Rightarrow> (Inr code, st3))
                 else if returncode > 1 then
                   (case exit returncode
                           (''An error occured, here is the output :'' @ [CHR 0x0A] @ '' '' @ output @ error)
                           st2 of
                      (code, st3) \<Rightarrow> (Inr code, st3))
                 else (Inr 0, st2)))"

definition stop :: "world \<Rightarrow> string \<Rightarrow> state \<Rightarrow> (exn + int) \<times> state" where
  "stop w pidfile st =
     (let command = STOP_COMMAND pidfile;
          st1 = st\<lparr>commands := commands st @ [command]\<rparr>
      in case run_command w (commands st) command of
           Inl e \<Rightarrow> (Inl e, st1)
         | Inr (returncode, output, error) \<Rightarrow>
             (let st2 = logging DEBUG
                    (''Running '' @ dq @ command @ dq @ '', returncode='' @ str_int returncode @ ''.'') st1
              in if returncode = 1 then
                   (case exit returncode ''The process is not running !'' st2 of
                      (code, st3) \<Rightarrow> (Inr code, st3))
                 else if returncode > 1 then
                   (case exit returncode
                           (''An error occured, here is the output : '' @ [CHR 0x0A] @ '' '' @ output @ error)
                           st2 of
                      (code, st3) \<Rightarrow> (Inr code, st3))
                 else (Inr 0, st2)))"

text \<open>
  The values \<^verbatim>\<open>parser.parse_args(argv[1:])\<close> gives, the \<open>options\<close> and the positional
  arguments. \<^verbatim>\<open>main\<close> is modelled in two parts: \<open>main\<close> below is the function from the
  result of \<^verbatim>\<open>parse_args\<close> on, \<open>parse_args\<close> further down is the parser of \<^verbatim>\<open>optparse\<close>
  with the five options of the script, and \<open>script\<close> puts the two together.
\<close>

record options =
  server_dir :: string
  webserver_dir :: string
  user :: string
  debug :: bool

text \<open>The defaults of the four options.\<close>

definition default_options :: options where
  "default_options =
     \<lparr>server_dir = ''server'', webserver_dir = ''web'', user = ''openerp'', debug = False\<rparr>"

text \<open>
  The program file and the PID file of a target (the \<^verbatim>\<open>if target == 'server'\<close> chain
  of \<^verbatim>\<open>main\<close>); \<open>None\<close> is its \<^verbatim>\<open>else\<close> branch.
\<close>

definition target_paths :: "options \<Rightarrow> string \<Rightarrow> (string \<times> string) option" where
  "target_paths opts target =
     (if target = ''server'' then
        Some (os_path_join (server_dir opts) [''bin'', ''openerp-server.py''],
              os_path_join (server_dir opts) [''bin'', ''server.pid''])
      else if target = ''webserver'' then
        Some (os_path_join (webserver_dir opts) [''openerp-web.py''],
              os_path_join (webserver_dir opts) [''webserver.pid''])
      else None)"

text \<open>
  \<^verbatim>\<open>if options.debug: logging.getLogger().setLevel(logging.DEBUG)\<close>.
\<close>

definition setLevel_debug :: "options \<Rightarrow> state \<Rightarrow> state" where
  "setLevel_debug opts st = (if debug opts then st\<lparr>threshold := DEBUG\<rparr> else st)"

text \<open>
  \<^verbatim>\<open>main(argv)\<close>, from the result of \<^verbatim>\<open>parse_args\<close> on; \<open>argv0\<close> is \<^verbatim>\<open>argv[0]\<close>. The
  result is the value returned (\<open>None\<close> where the function ends without \<^verbatim>\<open>return\<close>), or
  the exception that left it.
\<close>

definition main :: "world \<Rightarrow> string \<Rightarrow> options \<Rightarrow> string list \<Rightarrow> state \<Rightarrow> (exn + int option) \<times> state" where
  "main w argv0 opts args st0 =
     (let st = setLevel_debug opts st0 in
      if length args < 2
         \<or> args ! 0 \<notin> set [''start'', ''stop'', ''restart'', ''status'']
         \<or> args ! 1 \<notin> set [''server'', ''webserver'']
      then (case exit 1 (''ERROR: Use '' @ dq @ argv0 @ '' --help'' @ dq @ '' to get more informations.'') st of
              (code, st') \<Rightarrow> (Inr (Some code), st'))
      else
        (let command = args ! 0; target = args ! 1 in
         case target_paths opts target of
           None \<Rightarrow>
             (case exit 1 (''Invalid target: '' @ target) st of
                (code, st') \<Rightarrow> (Inr (Some code), st'))
         | Some (program, pidfile) \<Rightarrow>
             if \<not> path_exists w program then
               (case exit 1 (''The '' @ sq @ target @ sq @ '' program file doesn'' @ sq @ ''t exist: ''
                               @ program @ ''.'') st of
                  (code, st') \<Rightarrow> (Inr (Some code), st'))
             else if command = ''start'' then
               (case start w (getcwd w) program pidfile st of
                  (Inl e, st1) \<Rightarrow> (Inl e, st1)
                | (Inr code, st1) \<Rightarrow>
                    (Inr (Some code),
                     if code = 0
                     then logging INFO (''The target '' @ dq @ target @ dq @ '' has been started correctly.'') st1
                     else st1))
             else if command = ''stop'' then
               (case stop w pidfile st of
                  (Inl e, st1) \<Rightarrow> (Inl e, st1)
                | (Inr code, st1) \<Rightarrow>
                    (Inr (Some code),
                     if code = 0
                     then logging INFO (''The target '' @ dq @ target @ dq @ '' has been stopped correctly.'') st1
                     else st1))
             else if command = ''restart'' then
               (case stop w pidfile st of
                  (Inl e, st1) \<Rightarrow> (Inl e, st1)
                | (Inr code_stop, st1) \<Rightarrow>
                    (case start w (getcwd w) program pidfile st1 of
                       (Inl e, st2) \<Rightarrow> (Inl e, st2)
                     | (Inr code_start, st2) \<Rightarrow>
                         if code_stop \<noteq> 0 \<or> code_start \<noteq> 0 then
                           (case exit 1 (''Error while restarting the target '' @ dq @ target @ dq @ ''.'') st2 of
                              (code, st3) \<Rightarrow> (Inr (Some code), st3))
                         else (Inr (Some 0), st2)))
             else if command = ''status'' then
               (case open_file w pidfile of
                  None \<Rightarrow> (Inl (IOError pidfile), st)
                | Some content \<Rightarrow>
                    (let pid = strip (readline content) in
                     (Inr (Some 0),
                      if path_exists w (os_path_join ''/proc'' [pid])
                      then logging INFO (''The target '' @ dq @ target @ dq @ '' is running.'') st
                      else logging INFO (''The target '' @ dq @ target @ dq @ '' is stopped.'') st)))
             else (Inr None, st)))"

text \<open>
  \<^verbatim>\<open>sys.exit(main(sys.argv))\<close>: the exit status of the process. An integer is the status
  itself, \<^verbatim>\<open>None\<close> is status 0, and an exception nobody caught ends the interpreter with
  status 1 after the traceback.
\<close>

definition sys_exit :: "exn + int option \<Rightarrow> int" where
  "sys_exit r = (case r of Inl e \<Rightarrow> 1 | Inr None \<Rightarrow> 0 | Inr (Some code) \<Rightarrow> code)"

subsection \<open>The option parser\<close>

text \<open>
  \<^verbatim>\<open>optparse.OptionParser\<close> with the options the script adds and \<^verbatim>\<open>--help\<close>, \<^verbatim>\<open>-h\<close>,
  which the parser adds itself. A long option may be abbreviated to a prefix that fits one
  option only (\<^verbatim>\<open>_match_abbrev\<close>); \<^verbatim>\<open>--server-dir\<close>, \<^verbatim>\<open>--webserver-dir\<close> and
  \<^verbatim>\<open>--user\<close> take a value, which \<open>store\<close> writes to the option's field.
\<close>

definition long_opts :: "string list" where
  "long_opts = [''--server-dir'', ''--webserver-dir'', ''--user'', ''--debug'', ''--help'']"

definition match_abbrev :: "string \<Rightarrow> string option" where
  "match_abbrev s =
     (if s \<in> set long_opts then Some s
      else case filter (\<lambda>word. take (length s) word = s) long_opts of
             [word] \<Rightarrow> Some word
           | _ \<Rightarrow> None)"

definition takes_value :: "string \<Rightarrow> bool" where
  "takes_value opt \<longleftrightarrow> opt \<in> set [''--server-dir'', ''--webserver-dir'', ''--user'']"

definition store :: "string \<Rightarrow> string \<Rightarrow> options \<Rightarrow> options" where
  "store opt value values =
     (if opt = ''--server-dir'' then values\<lparr>server_dir := value\<rparr>
      else if opt = ''--webserver-dir'' then values\<lparr>webserver_dir := value\<rparr>
      else values\<lparr>user := value\<rparr>)"

text \<open>
  \<^verbatim>\<open>_process_args\<close>, with \<^verbatim>\<open>_process_long_opt\<close> and \<^verbatim>\<open>_process_short_opts\<close>: the
  arguments are taken from the left. \<^verbatim>\<open>--\<close> ends the options; an argument that begins
  with \<^verbatim>\<open>--\<close> is a long option, whose value is what follows its first \<^verbatim>\<open>=\<close> or else
  the next argument; an argument that begins with \<^verbatim>\<open>-\<close> and is longer is a group of
  short options, of which only \<^verbatim>\<open>h\<close> exists; anything else is a positional argument
  (\<open>largs\<close>). The result is \<open>Inl\<close> the status of \<^verbatim>\<open>sys.exit\<close> where the parser ends the
  process itself: 0 after the help text, 2 after \<^verbatim>\<open>parser.error\<close> (an unknown or ambiguous
  option, a missing value, a value given to an option that takes none). What the parser
  prints there is not recorded.
\<close>

fun process_args :: "options \<Rightarrow> string list \<Rightarrow> string list \<Rightarrow> int + (options \<times> string list)" where
  "process_args values largs [] = Inr (values, largs)"
| "process_args values largs (arg # rargs) =
     (if arg = ''--'' then Inr (values, largs @ rargs)
      else if take 2 arg = ''--'' then
        (let opt = takeWhile (\<lambda>c. c \<noteq> CHR ''='') arg in
         case match_abbrev opt of
           None \<Rightarrow> Inl 2
         | Some name \<Rightarrow>
             if takes_value name then
               (if CHR ''='' \<in> set arg
                then process_args (store name (tl (dropWhile (\<lambda>c. c \<noteq> CHR ''='') arg)) values) largs rargs
                else case rargs of
                       [] \<Rightarrow> Inl 2
                     | value # rargs' \<Rightarrow> process_args (store name value values) largs rargs')
             else if CHR ''='' \<in> set arg then Inl 2
             else if name = ''--debug'' then process_args (values\<lparr>debug := True\<rparr>) largs rargs
             else Inl 0)
      else if take 1 arg = ''-'' \<and> length arg > 1 then
        (if arg ! 1 = CHR ''h'' then Inl 0 else Inl 2)
      else process_args values (largs @ [arg]) rargs)"

text \<open>
  \<^verbatim>\<open>parser.parse_args(argv[1:])\<close>, starting from the defaults.
\<close>

definition parse_args :: "string list \<Rightarrow> int + (options \<times> string list)" where
  "parse_args args = process_args default_options [] args"

text \<open>
  The script as run, \<^verbatim>\<open>sys.exit(main(sys.argv))\<close> with \<^verbatim>\<open>sys.argv\<close> being
  \<open>argv0 # cmdline\<close>: the exit status of the process and the final state.
\<close>

definition script :: "world \<Rightarrow> string \<Rightarrow> string list \<Rightarrow> state \<Rightarrow> int \<times> state" where
  "script w argv0 cmdline st =
     (case parse_args cmdline of
        Inl status \<Rightarrow> (status, st)
      | Inr (opts, args) \<Rightarrow>
          (case main w argv0 opts args st of (r, st') \<Rightarrow> (sys_exit r, st')))"

subsection \<open>Notions the statements below use\<close>

text \<open>
  The state once a command has run and returned: the command is recorded and the debug
  line of \<^verbatim>\<open>start\<close> and \<^verbatim>\<open>stop\<close> is logged (it shows only at level \<open>DEBUG\<close>).
\<close>

definition ran :: "string \<Rightarrow> int \<Rightarrow> state \<Rightarrow> state" where
  "ran command returncode st =
     logging DEBUG (''Running '' @ dq @ command @ dq @ '', returncode='' @ str_int returncode @ ''.'')
       (st\<lparr>commands := commands st @ [command]\<rparr>)"

text \<open>
  A concrete world for the examples: both program files exist, the server's PID file
  holds \<^verbatim>\<open>12345\<close> and that process is alive, the web server has no PID file, and the
  \<open>n\<close>-th command run gets the \<open>n\<close>-th of the given answers (when they are used up,
  \<^verbatim>\<open>start-stop-daemon\<close> is not found).
\<close>

definition demo_world :: "(int \<times> string \<times> string) list \<Rightarrow> world" where
  "demo_world answers =
     \<lparr>path_exists = (\<lambda>p. p \<in> set [''server/bin/openerp-server.py'', ''web/openerp-web.py'', ''/proc/12345'']),
      open_file = map_of [(''server/bin/server.pid'', ''12345'' @ [CHR 0x0A] @ ''garbage'')],
      getcwd = ''/opt/openerp'',
      run_command = (\<lambda>history command.
         if length history < length answers then Inr (answers ! length history)
         else Inl (OSError ''start-stop-daemon''))\<rparr>"

text \<open>
  A second world, which holds the given text in the server's PID file; the paths
  \<^verbatim>\<open>/proc/12345\<close> and \<^verbatim>\<open>/etc/passwd\<close> exist, \<^verbatim>\<open>start-stop-daemon\<close> is not found.
\<close>

definition pidfile_world :: "string \<Rightarrow> world" where
  "pidfile_world content =
     \<lparr>path_exists = (\<lambda>p. p \<in> set [''server/bin/openerp-server.py'', ''/proc/12345'', ''/etc/passwd'']),
      open_file = map_of [(''server/bin/server.pid'', content)],
      getcwd = ''/opt/openerp'',
      run_command = (\<lambda>history command. Inl (OSError ''start-stop-daemon''))\<rparr>"

section \<open>Facts about the model\<close>

text \<open>Logging and recording a command change one field each.\<close>

lemma commands_logging [simp]: "commands (logging lvl m st) = commands st"
  by (simp add: logging_def)

lemma threshold_logging [simp]: "threshold (logging lvl m st) = threshold st"
  by (simp add: logging_def)

lemma commands_ran [simp]: "commands (ran c r st) = commands st @ [c]"
  by (simp add: ran_def)

lemma commands_setLevel_debug [simp]: "commands (setLevel_debug opts st) = commands st"
  by (simp add: setLevel_debug_def)

lemma start_returned:
  assumes "run_command w (commands st) (START_COMMAND program directory pidfile) = Inr (r, output, error)"
  shows "start w directory program pidfile st =
     (if r = 1 then (Inr 1, logging ERROR ''The process is already running !''
                        (ran (START_COMMAND program directory pidfile) r st))
      else if r > 1 then (Inr r, logging ERROR
                        (''An error occured, here is the output :'' @ [CHR 0x0A] @ '' '' @ output @ error)
                        (ran (START_COMMAND program directory pidfile) r st))
      else (Inr 0, ran (START_COMMAND program directory pidfile) r st))"
  using assms by (simp add: start_def ran_def exit_def Let_def)

lemma stop_returned:
  assumes "run_command w (commands st) (STOP_COMMAND pidfile) = Inr (r, output, error)"
  shows "stop w pidfile st =
     (if r = 1 then (Inr 1, logging ERROR ''The process is not running !''
                        (ran (STOP_COMMAND pidfile) r st))
      else if r > 1 then (Inr r, logging ERROR
                        (''An error occured, here is the output : '' @ [CHR 0x0A] @ '' '' @ output @ error)
                        (ran (STOP_COMMAND pidfile) r st))
      else (Inr 0, ran (STOP_COMMAND pidfile) r st))"
  using assms by (simp add: stop_def ran_def exit_def Let_def)

lemma target_paths_Some:
  "target_paths opts target = Some (program, pidfile) \<Longrightarrow> target \<in> set [''server'', ''webserver'']"
  by (auto simp: target_paths_def split: if_splits)

lemma is_space_newline: "is_space (CHR 0x0A)"
  by (simp add: is_space_def)

lemma dropWhile_all: "\<forall>x\<in>set l. P x \<Longrightarrow> dropWhile P l = []"
  by (induction l) auto

lemma strip_newline: "strip (l @ [CHR 0x0A]) = strip l"
proof (cases "\<forall>x\<in>set l. is_space x")
  case True
  then have "\<forall>x\<in>set (l @ [CHR 0x0A]). is_space x"
    using is_space_newline by simp
  then have a: "dropWhile is_space (l @ [CHR 0x0A]) = []"
    by (rule dropWhile_all)
  have b: "dropWhile is_space l = []"
    using True by (rule dropWhile_all)
  show ?thesis
    unfolding strip_def a b ..
next
  case False
  then have "dropWhile is_space (l @ [CHR 0x0A]) = dropWhile is_space l @ [CHR 0x0A]"
    by (auto simp: dropWhile_append)
  then show ?thesis
    using is_space_newline by (simp add: strip_def)
qed

lemma readline_first:
  "CHR 0x0A \<notin> set l \<Longrightarrow> readline (l @ CHR 0x0A # others) = l @ [CHR 0x0A]"
  by (induction l) auto

lemma readline_all: "CHR 0x0A \<notin> set l \<Longrightarrow> readline l = l"
  by (induction l) auto

text \<open>What \<open>main\<close> does once the arguments are valid and the program file exists.\<close>

lemma main_dispatch:
  assumes "command \<in> set [''start'', ''stop'', ''restart'', ''status'']"
    and "target_paths opts target = Some (program, pidfile)"
    and "path_exists w program"
  shows "main w argv0 opts (command # target # rest) st0 =
     (let st = setLevel_debug opts st0 in
      if command = ''start'' then
        (case start w (getcwd w) program pidfile st of
           (Inl e, st1) \<Rightarrow> (Inl e, st1)
         | (Inr code, st1) \<Rightarrow>
             (Inr (Some code),
              if code = 0
              then logging INFO (''The target '' @ dq @ target @ dq @ '' has been started correctly.'') st1
              else st1))
      else if command = ''stop'' then
        (case stop w pidfile st of
           (Inl e, st1) \<Rightarrow> (Inl e, st1)
         | (Inr code, st1) \<Rightarrow>
             (Inr (Some code),
              if code = 0
              then logging INFO (''The target '' @ dq @ target @ dq @ '' has been stopped correctly.'') st1
              else st1))
      else if command = ''restart'' then
        (case stop w pidfile st of
           (Inl e, st1) \<Rightarrow> (Inl e, st1)
         | (Inr code_stop, st1) \<Rightarrow>
             (case start w (getcwd w) program pidfile st1 of
                (Inl e, st2) \<Rightarrow> (Inl e, st2)
              | (Inr code_start, st2) \<Rightarrow>
                  if code_stop \<noteq> 0 \<or> code_start \<noteq> 0 then
                    (Inr (Some 1),
                     logging ERROR (''Error while restarting the target '' @ dq @ target @ dq @ ''.'') st2)
                  else (Inr (Some 0), st2)))
      else
        (case open_file w pidfile of
           None \<Rightarrow> (Inl (IOError pidfile), st)
         | Some content \<Rightarrow>
             (Inr (Some 0),
              if path_exists w (os_path_join ''/proc'' [strip (readline content)])
              then logging INFO (''The target '' @ dq @ target @ dq @ '' is running.'') st
              else logging INFO (''The target '' @ dq @ target @ dq @ '' is stopped.'') st)))"
proof -
  have "target \<in> set [''server'', ''webserver'']"
    using assms(2) by (rule target_paths_Some)
  moreover have "command = ''start'' \<or> command = ''stop'' \<or> command = ''restart'' \<or> command = ''status''"
    using assms(1) by simp
  ultimately show ?thesis
    using assms(2,3) unfolding main_def
    by (elim disjE) (simp_all add: exit_def Let_def split: prod.splits sum.splits option.splits)
qed

text \<open>The path \<^verbatim>\<open>status\<close> looks up, and the first line it reads.\<close>

lemma stdout_setLevel_debug [simp]: "stdout (setLevel_debug opts st) = stdout st"
  by (simp add: setLevel_debug_def)

lemma proc_path:
  assumes "take 1 p \<noteq> ''/''"
  shows "os_path_join ''/proc'' [p] = ''/proc/'' @ p"
proof -
  have "\<not> (p \<noteq> [] \<and> hd p = CHR ''/'')"
    using assms by (cases p) auto
  then show ?thesis
    by (simp add: os_path_join_def join_step_def)
qed

lemma strip_readline:
  assumes "content = l \<or> content = l @ CHR 0x0A # others"
    and "CHR 0x0A \<notin> set l"
  shows "strip (readline content) = strip l"
  using assms by (auto simp: readline_all readline_first strip_newline)



text \<open>
  What \<open>strip\<close> leaves of a line: the text between the leading and the trailing
  whitespace.
\<close>

lemma is_space_iff:
  "is_space c \<longleftrightarrow> c \<in> set [CHR '' '', CHR 0x09, CHR 0x0A, CHR 0x0B, CHR 0x0C, CHR 0x0D]"
  by (simp add: is_space_def)

lemma dropWhile_keep: "xs = [] \<or> \<not> P (hd xs) \<Longrightarrow> dropWhile P xs = xs"
  by (cases xs) auto

lemma strip_surrounded:
  assumes pre: "\<forall>c\<in>set pre. is_space c"
    and post: "\<forall>c\<in>set post. is_space c"
    and p: "p = [] \<or> (\<not> is_space (hd p) \<and> \<not> is_space (last p))"
  shows "strip (pre @ p @ post) = p"
proof (cases "p = []")
  case True
  have "\<forall>c\<in>set (pre @ post). is_space c"
    using pre post by auto
  then have a: "dropWhile is_space (pre @ [] @ post) = []"
    unfolding append_Nil by (rule dropWhile_all)
  show ?thesis
    unfolding True strip_def a by simp
next
  case False
  with p have h: "\<not> is_space (hd p)" and l: "\<not> is_space (last p)"
    by simp_all
  have "dropWhile is_space (pre @ p @ post) = dropWhile is_space (p @ post)"
    by (rule dropWhile_append2) (use pre in blast)
  also have "\<dots> = p @ post"
    using False h by (intro dropWhile_keep) simp
  finally have a: "dropWhile is_space (pre @ p @ post) = p @ post" .
  have "dropWhile is_space (rev post @ rev p) = dropWhile is_space (rev p)"
    by (rule dropWhile_append2) (use post in simp)
  also have "\<dots> = rev p"
    using False l by (intro dropWhile_keep) (simp add: hd_rev)
  finally have b: "dropWhile is_space (rev (p @ post)) = rev p"
    by simp
  show ?thesis
    unfolding strip_def a b by simp
qed

text \<open>
  Arguments that are not a command followed by a target end \<open>main\<close> at its first check.
\<close>

lemma main_invalid_arguments:
  assumes "\<not> (\<exists>command target rest.
                args = command # target # rest
                \<and> command \<in> set [''start'', ''stop'', ''restart'', ''status'']
                \<and> target \<in> set [''server'', ''webserver''])"
  shows "main w argv0 opts args st0 =
           (Inr (Some 1),
            logging ERROR (''ERROR: Use '' @ dq @ argv0 @ '' --help'' @ dq @ '' to get more informations.'')
              (setLevel_debug opts st0))"
proof -
  have guard: "length args < 2
         \<or> args ! 0 \<notin> set [''start'', ''stop'', ''restart'', ''status'']
         \<or> args ! 1 \<notin> set [''server'', ''webserver'']"
  proof (cases args)
    case Nil
    then show ?thesis by simp
  next
    case (Cons command more_args)
    note outer = Cons
    show ?thesis
    proof (cases more_args)
      case Nil
      with outer show ?thesis by simp
    next
      case (Cons target rest)
      with outer assms show ?thesis by auto
    qed
  qed
  then show ?thesis
    unfolding main_def Let_def by (simp only: if_True exit_def prod.case)
qed

text \<open>The definitions a concrete example unfolds.\<close>

lemmas demo_defs = demo_world_def basicConfig_def default_options_def target_paths_def
  os_path_join_def join_step_def START_COMMAND_def STOP_COMMAND_def

section \<open>The claims\<close>

subsection \<open>C1: restart is stop, then start whatever stop returned\<close>

text \<open>
  C1. For a valid target whose program file exists, when both commands of
  \<^verbatim>\<open>start-stop-daemon\<close> return, \<^verbatim>\<open>restart\<close> calls \<open>stop\<close> and then \<open>start\<close> on the
  state \<open>stop\<close> left, whatever code \<open>stop\<close> returned: the commands run are the stop command
  followed by the start command. It returns 1 with an error message, and the process exits
  with status 1, if and only if one of the two returned codes is not 0; otherwise it
  returns 0.
\<close>

theorem restart_stop_then_start:
  assumes tp: "target_paths opts target = Some (program, pidfile)"
    and ex: "path_exists w program"
    and rs: "run_command w (commands st0) (STOP_COMMAND pidfile) = Inr (rs, outs, errs)"
    and rt: "run_command w (commands st0 @ [STOP_COMMAND pidfile])
               (START_COMMAND program (getcwd w) pidfile) = Inr (rt, outt, errt)"
  shows "\<exists>code_stop code_start st1 st2.
           stop w pidfile (setLevel_debug opts st0) = (Inr code_stop, st1) \<and>
           start w (getcwd w) program pidfile st1 = (Inr code_start, st2) \<and>
           commands st2 = commands st0 @ [STOP_COMMAND pidfile, START_COMMAND program (getcwd w) pidfile] \<and>
           main w argv0 opts (''restart'' # target # rest) st0 =
             (if code_stop \<noteq> 0 \<or> code_start \<noteq> 0
              then (Inr (Some 1),
                    logging ERROR (''Error while restarting the target '' @ dq @ target @ dq @ ''.'') st2)
              else (Inr (Some 0), st2)) \<and>
           sys_exit (fst (main w argv0 opts (''restart'' # target # rest) st0)) =
             (if code_stop \<noteq> 0 \<or> code_start \<noteq> 0 then 1 else 0)"
proof -
  define st where "st = setLevel_debug opts st0"
  have cst: "commands st = commands st0"
    by (simp add: st_def)
  obtain code_stop st1 where s1: "stop w pidfile st = (Inr code_stop, st1)"
    and c1: "commands st1 = commands st0 @ [STOP_COMMAND pidfile]"
    using stop_returned [of w st pidfile rs outs errs] rs cst by (cases "rs = 1"; cases "rs > 1") auto
  obtain code_start st2 where s2: "start w (getcwd w) program pidfile st1 = (Inr code_start, st2)"
    and c2: "commands st2 = commands st1 @ [START_COMMAND program (getcwd w) pidfile]"
    using start_returned [of w st1 program "getcwd w" pidfile rt outt errt] rt c1
    by (cases "rt = 1"; cases "rt > 1") auto
  have m: "main w argv0 opts (''restart'' # target # rest) st0 =
             (if code_stop \<noteq> 0 \<or> code_start \<noteq> 0
              then (Inr (Some 1),
                    logging ERROR (''Error while restarting the target '' @ dq @ target @ dq @ ''.'') st2)
              else (Inr (Some 0), st2))"
    using s1 s2 by (simp add: main_dispatch [OF _ tp ex] st_def [symmetric])
  have "stop w pidfile (setLevel_debug opts st0) = (Inr code_stop, st1) \<and>
        start w (getcwd w) program pidfile st1 = (Inr code_start, st2) \<and>
        commands st2 = commands st0 @ [STOP_COMMAND pidfile, START_COMMAND program (getcwd w) pidfile] \<and>
        main w argv0 opts (''restart'' # target # rest) st0 =
          (if code_stop \<noteq> 0 \<or> code_start \<noteq> 0
           then (Inr (Some 1),
                 logging ERROR (''Error while restarting the target '' @ dq @ target @ dq @ ''.'') st2)
           else (Inr (Some 0), st2)) \<and>
        sys_exit (fst (main w argv0 opts (''restart'' # target # rest) st0)) =
          (if code_stop \<noteq> 0 \<or> code_start \<noteq> 0 then 1 else 0)"
    using s1 s2 c1 c2 m by (simp add: st_def sys_exit_def)
  then show ?thesis
    by blast
qed

text \<open>An example: the process was not running (stop returns 1), start succeeds, the restart reports failure.\<close>

theorem restart_stop_then_start_witness:
  "main (demo_world [(1, [], []), (0, [], [])]) ''openerp.py'' default_options
        [''restart'', ''server''] basicConfig =
     (Inr (Some 1),
      \<lparr>threshold = INFO,
       stdout = [''ERROR: The process is not running !'',
                 ''ERROR: Error while restarting the target '' @ dq @ ''server'' @ dq @ ''.''],
       commands = [STOP_COMMAND ''server/bin/server.pid'',
                   START_COMMAND ''server/bin/openerp-server.py'' ''/opt/openerp'' ''server/bin/server.pid'']\<rparr>)
   \<and> (\<exists>code_stop code_start st1 st2.
           stop (demo_world [(1, [], []), (0, [], [])]) ''server/bin/server.pid''
             (setLevel_debug default_options basicConfig) = (Inr code_stop, st1) \<and>
           start (demo_world [(1, [], []), (0, [], [])]) ''/opt/openerp'' ''server/bin/openerp-server.py''
             ''server/bin/server.pid'' st1 = (Inr code_start, st2) \<and>
           sys_exit (fst (main (demo_world [(1, [], []), (0, [], [])]) ''openerp.py'' default_options
                            [''restart'', ''server''] basicConfig)) =
             (if code_stop \<noteq> 0 \<or> code_start \<noteq> 0 then 1 else 0))"
proof -
  let ?w = "demo_world [(1, [], []), (0, [], [])]"
  have h1: "target_paths default_options ''server'' =
              Some (''server/bin/openerp-server.py'', ''server/bin/server.pid'')"
    by (simp add: demo_defs)
  have h2: "path_exists ?w ''server/bin/openerp-server.py''"
    by (simp add: demo_defs)
  have h3: "run_command ?w (commands basicConfig) (STOP_COMMAND ''server/bin/server.pid'') = Inr (1, [], [])"
    by (simp add: demo_defs)
  have h4: "run_command ?w (commands basicConfig @ [STOP_COMMAND ''server/bin/server.pid''])
              (START_COMMAND ''server/bin/openerp-server.py'' (getcwd ?w) ''server/bin/server.pid'')
            = Inr (0, [], [])"
    by (simp add: demo_defs)
  have g: "getcwd ?w = ''/opt/openerp''"
    by (simp add: demo_defs)
  from restart_stop_then_start [OF h1 h2 h3 h4, of "''openerp.py''" "[]"]
  obtain code_stop code_start st1 st2 where
    a: "stop ?w ''server/bin/server.pid'' (setLevel_debug default_options basicConfig) = (Inr code_stop, st1)"
    and b: "start ?w ''/opt/openerp'' ''server/bin/openerp-server.py'' ''server/bin/server.pid'' st1
              = (Inr code_start, st2)"
    and c: "sys_exit (fst (main ?w ''openerp.py'' default_options [''restart'', ''server''] basicConfig)) =
             (if code_stop \<noteq> 0 \<or> code_start \<noteq> 0 then 1 else 0)"
    unfolding g by blast
  have v: "main ?w ''openerp.py'' default_options [''restart'', ''server''] basicConfig =
     (Inr (Some 1),
      \<lparr>threshold = INFO,
       stdout = [''ERROR: The process is not running !'',
                 ''ERROR: Error while restarting the target '' @ dq @ ''server'' @ dq @ ''.''],
       commands = [STOP_COMMAND ''server/bin/server.pid'',
                   START_COMMAND ''server/bin/openerp-server.py'' ''/opt/openerp'' ''server/bin/server.pid'']\<rparr>)"
    by (simp add: main_def stop_def start_def exit_def logging_def setLevel_debug_def demo_defs Let_def)
  from a b c v show ?thesis
    by blast
qed

subsection \<open>C2: what start makes of the return code\<close>

text \<open>
  C2, as the code has it. When the start command returns code \<open>r\<close>: for \<open>r = 0\<close>,
  \<open>start\<close> returns 0 and logs no error; for \<open>r = 1\<close> it returns 1 and logs the error
  \<^verbatim>\<open>The process is already running !\<close>; for \<open>r > 1\<close> it returns \<open>r\<close> itself and logs
  an error whose message ends with the captured standard output followed by the captured
  standard error. The guard of the failure branch is \<^verbatim>\<open>returncode > 1\<close>, so a negative
  \<open>r\<close> takes the \<^verbatim>\<open>else\<close> branch: \<open>start\<close> returns 0 and logs no error.
\<close>

theorem start_return_codes:
  assumes "run_command w (commands st) (START_COMMAND program directory pidfile) = Inr (r, output, error)"
  shows "(r = 0 \<longrightarrow> start w directory program pidfile st =
            (Inr 0, ran (START_COMMAND program directory pidfile) r st))
       \<and> (r = 1 \<longrightarrow> start w directory program pidfile st =
            (Inr 1, logging ERROR ''The process is already running !''
                      (ran (START_COMMAND program directory pidfile) r st)))
       \<and> (1 < r \<longrightarrow> start w directory program pidfile st =
            (Inr r, logging ERROR
                      (''An error occured, here is the output :'' @ [CHR 0x0A] @ '' '' @ output @ error)
                      (ran (START_COMMAND program directory pidfile) r st)))
       \<and> (r < 0 \<longrightarrow> start w directory program pidfile st =
            (Inr 0, ran (START_COMMAND program directory pidfile) r st))"
  using start_returned [OF assms] by simp

text \<open>
  An example with return code 2.
\<close>

theorem start_return_codes_witness:
  "run_command (demo_world [(2, ''out'', ''err'')]) (commands basicConfig)
     (START_COMMAND ''server/bin/openerp-server.py'' ''/opt/openerp'' ''server/bin/server.pid'')
     = Inr (2, ''out'', ''err'')
   \<and> start (demo_world [(2, ''out'', ''err'')]) ''/opt/openerp'' ''server/bin/openerp-server.py''
       ''server/bin/server.pid'' basicConfig
     = (Inr 2,
        \<lparr>threshold = INFO,
         stdout = [''ERROR: An error occured, here is the output :'' @ [CHR 0x0A] @ '' outerr''],
         commands = [START_COMMAND ''server/bin/openerp-server.py'' ''/opt/openerp'' ''server/bin/server.pid'']\<rparr>)"
proof -
  let ?w = "demo_world [(2, ''out'', ''err'')]"
  let ?c = "START_COMMAND ''server/bin/openerp-server.py'' ''/opt/openerp'' ''server/bin/server.pid''"
  have h: "run_command ?w (commands basicConfig) ?c = Inr (2, ''out'', ''err'')"
    by (simp add: demo_defs)
  have "start ?w ''/opt/openerp'' ''server/bin/openerp-server.py'' ''server/bin/server.pid'' basicConfig =
          (Inr 2, logging ERROR
                    (''An error occured, here is the output :'' @ [CHR 0x0A] @ '' '' @ ''out'' @ ''err'')
                    (ran ?c 2 basicConfig))"
    using start_return_codes [OF h] by simp
  then show ?thesis
    using h by (simp add: ran_def logging_def basicConfig_def)
qed

text \<open>
  The claim as written ("for any other return code returns Failure, passing \<open>r\<close> through")
  fails for a negative code, which \<^verbatim>\<open>Popen\<close> reports when a signal ended the command:
  with \<open>r = -15\<close>, \<open>start\<close> returns 0, not \<open>-15\<close>, and writes nothing to the log.
\<close>

theorem start_negative_returncode_counterexample:
  "run_command (demo_world [(- 15, ''out'', ''err'')]) (commands basicConfig)
     (START_COMMAND ''server/bin/openerp-server.py'' ''/opt/openerp'' ''server/bin/server.pid'')
     = Inr (- 15, ''out'', ''err'')
   \<and> fst (start (demo_world [(- 15, ''out'', ''err'')]) ''/opt/openerp''
             ''server/bin/openerp-server.py'' ''server/bin/server.pid'' basicConfig) = Inr 0
   \<and> fst (start (demo_world [(- 15, ''out'', ''err'')]) ''/opt/openerp''
             ''server/bin/openerp-server.py'' ''server/bin/server.pid'' basicConfig) \<noteq> Inr (- 15)
   \<and> stdout (snd (start (demo_world [(- 15, ''out'', ''err'')]) ''/opt/openerp''
             ''server/bin/openerp-server.py'' ''server/bin/server.pid'' basicConfig)) = []"
  by (simp add: start_def logging_def demo_defs Let_def)

subsection \<open>C3: what stop makes of the return code\<close>

text \<open>
  C3, as the code has it. When the stop command returns code \<open>r\<close>: for \<open>r = 0\<close>,
  \<open>stop\<close> returns 0 and logs no error; for \<open>r = 1\<close> it returns 1 and logs the error
  \<^verbatim>\<open>The process is not running !\<close>; for \<open>r > 1\<close> it returns \<open>r\<close> itself and logs an
  error whose message ends with the captured standard output followed by the captured
  standard error; for a negative \<open>r\<close> it returns 0 and logs no error.
\<close>

theorem stop_return_codes:
  assumes "run_command w (commands st) (STOP_COMMAND pidfile) = Inr (r, output, error)"
  shows "(r = 0 \<longrightarrow> stop w pidfile st = (Inr 0, ran (STOP_COMMAND pidfile) r st))
       \<and> (r = 1 \<longrightarrow> stop w pidfile st =
            (Inr 1, logging ERROR ''The process is not running !'' (ran (STOP_COMMAND pidfile) r st)))
       \<and> (1 < r \<longrightarrow> stop w pidfile st =
            (Inr r, logging ERROR
                      (''An error occured, here is the output : '' @ [CHR 0x0A] @ '' '' @ output @ error)
                      (ran (STOP_COMMAND pidfile) r st)))
       \<and> (r < 0 \<longrightarrow> stop w pidfile st = (Inr 0, ran (STOP_COMMAND pidfile) r st))"
  using stop_returned [OF assms] by simp

text \<open>
  An example with return code 3.
\<close>

theorem stop_return_codes_witness:
  "run_command (demo_world [(3, ''out'', ''err'')]) (commands basicConfig)
     (STOP_COMMAND ''server/bin/server.pid'') = Inr (3, ''out'', ''err'')
   \<and> stop (demo_world [(3, ''out'', ''err'')]) ''server/bin/server.pid'' basicConfig
     = (Inr 3,
        \<lparr>threshold = INFO,
         stdout = [''ERROR: An error occured, here is the output : '' @ [CHR 0x0A] @ '' outerr''],
         commands = [STOP_COMMAND ''server/bin/server.pid'']\<rparr>)"
proof -
  let ?w = "demo_world [(3, ''out'', ''err'')]"
  let ?c = "STOP_COMMAND ''server/bin/server.pid''"
  have h: "run_command ?w (commands basicConfig) ?c = Inr (3, ''out'', ''err'')"
    by (simp add: demo_defs)
  have "stop ?w ''server/bin/server.pid'' basicConfig =
          (Inr 3, logging ERROR
                    (''An error occured, here is the output : '' @ [CHR 0x0A] @ '' '' @ ''out'' @ ''err'')
                    (ran ?c 3 basicConfig))"
    using stop_return_codes [OF h] by simp
  then show ?thesis
    using h by (simp add: ran_def logging_def basicConfig_def)
qed

text \<open>
  The claim as written fails for a negative code: with \<open>r = -9\<close>, \<open>stop\<close> returns 0,
  not \<open>-9\<close>, and writes nothing to the log.
\<close>

theorem stop_negative_returncode_counterexample:
  "run_command (demo_world [(- 9, ''out'', ''err'')]) (commands basicConfig)
     (STOP_COMMAND ''server/bin/server.pid'') = Inr (- 9, ''out'', ''err'')
   \<and> fst (stop (demo_world [(- 9, ''out'', ''err'')]) ''server/bin/server.pid'' basicConfig) = Inr 0
   \<and> fst (stop (demo_world [(- 9, ''out'', ''err'')]) ''server/bin/server.pid'' basicConfig)
         \<noteq> Inr (- 9)
   \<and> stdout (snd (stop (demo_world [(- 9, ''out'', ''err'')]) ''server/bin/server.pid'' basicConfig))
         = []"
  by (simp add: stop_def logging_def demo_defs Let_def)

subsection \<open>C4: status looks the first line of the PID file up under /proc\<close>

text \<open>
  C4, as the code has it. Let the PID file be readable, \<open>l\<close> its first line without the
  newline (whatever follows in \<open>others\<close>), and \<open>p\<close> the bare process id in it: \<open>l\<close> is
  \<open>p\<close> between leading and trailing whitespace, and \<open>p\<close> neither begins nor ends with
  whitespace. When \<open>p\<close> does not begin with a slash, \<^verbatim>\<open>status\<close> returns 0 and reports
  the target running exactly when the path \<^verbatim>\<open>/proc/\<close>\<open>p\<close> exists, and stopped
  otherwise.
\<close>

theorem status_first_line:
  assumes tp: "target_paths opts target = Some (program, pidfile)"
    and ex: "path_exists w program"
    and pf: "open_file w pidfile = Some content"
    and first: "content = l \<or> content = l @ CHR 0x0A # others"
    and line: "CHR 0x0A \<notin> set l"
    and bare: "l = pre @ p @ post"
    and pre: "set pre \<subseteq> set [CHR '' '', CHR 0x09, CHR 0x0A, CHR 0x0B, CHR 0x0C, CHR 0x0D]"
    and post: "set post \<subseteq> set [CHR '' '', CHR 0x09, CHR 0x0A, CHR 0x0B, CHR 0x0C, CHR 0x0D]"
    and ends: "p = [] \<or> (hd p \<notin> set [CHR '' '', CHR 0x09, CHR 0x0A, CHR 0x0B, CHR 0x0C, CHR 0x0D]
                          \<and> last p \<notin> set [CHR '' '', CHR 0x09, CHR 0x0A, CHR 0x0B, CHR 0x0C, CHR 0x0D])"
    and slash: "take 1 p \<noteq> ''/''"
  shows "main w argv0 opts (''status'' # target # rest) st0 =
     (Inr (Some 0),
      logging INFO
        (''The target '' @ dq @ target @ dq @
           (if path_exists w (''/proc/'' @ p) then '' is running.'' else '' is stopped.''))
        (setLevel_debug opts st0))"
proof -
  have "\<forall>c\<in>set pre. is_space c" and "\<forall>c\<in>set post. is_space c"
    using pre post unfolding is_space_iff by blast+
  moreover have "p = [] \<or> (\<not> is_space (hd p) \<and> \<not> is_space (last p))"
    using ends unfolding is_space_iff .
  ultimately have "strip l = p"
    unfolding bare by (rule strip_surrounded)
  then have "strip (readline content) = p"
    using strip_readline [OF first line] by simp
  then show ?thesis
    using pf by (simp add: main_dispatch [OF _ tp ex] proc_path [OF slash])
qed

text \<open>
  An example: the first line is \<^verbatim>\<open>12345\<close> between blanks and before a carriage return,
  a second line follows, and \<^verbatim>\<open>/proc/12345\<close> exists.
\<close>

theorem status_first_line_witness:
  "open_file (pidfile_world ('' 12345 '' @ CHR 0x0D # CHR 0x0A # ''garbage'')) ''server/bin/server.pid''
     = Some ('' 12345 '' @ CHR 0x0D # CHR 0x0A # ''garbage'')
   \<and> path_exists (pidfile_world ('' 12345 '' @ CHR 0x0D # CHR 0x0A # ''garbage'')) ''/proc/12345''
   \<and> main (pidfile_world ('' 12345 '' @ CHR 0x0D # CHR 0x0A # ''garbage'')) ''openerp.py''
        default_options [''status'', ''server''] basicConfig =
     (Inr (Some 0),
      \<lparr>threshold = INFO,
       stdout = [''INFO: The target '' @ dq @ ''server'' @ dq @ '' is running.''],
       commands = []\<rparr>)"
proof -
  let ?content = "'' 12345 '' @ CHR 0x0D # CHR 0x0A # ''garbage''"
  let ?w = "pidfile_world ?content"
  let ?ws = "[CHR '' '', CHR 0x09, CHR 0x0A, CHR 0x0B, CHR 0x0C, CHR 0x0D]"
  have tp: "target_paths default_options ''server'' =
              Some (''server/bin/openerp-server.py'', ''server/bin/server.pid'')"
    by (simp add: demo_defs)
  have ex: "path_exists ?w ''server/bin/openerp-server.py''"
    by (simp add: pidfile_world_def)
  have pf: "open_file ?w ''server/bin/server.pid'' = Some ?content"
    by (simp add: pidfile_world_def)
  have first: "?content = '' 12345 '' @ [CHR 0x0D] \<or> ?content = ('' 12345 '' @ [CHR 0x0D]) @ CHR 0x0A # ''garbage''"
    by simp
  have line: "CHR 0x0A \<notin> set ('' 12345 '' @ [CHR 0x0D])"
    by simp
  have bare: "'' 12345 '' @ [CHR 0x0D] = '' '' @ ''12345'' @ ('' '' @ [CHR 0x0D])"
    by simp
  have pre: "set '' '' \<subseteq> set ?ws"
    by simp
  have post: "set ('' '' @ [CHR 0x0D]) \<subseteq> set ?ws"
    by simp
  have ends: "''12345'' = [] \<or> (hd ''12345'' \<notin> set ?ws \<and> last ''12345'' \<notin> set ?ws)"
    by simp
  have slash: "take 1 ''12345'' \<noteq> ''/''"
    by simp
  have alive: "path_exists ?w ''/proc/12345''"
    by (simp add: pidfile_world_def)
  have "main ?w ''openerp.py'' default_options [''status'', ''server''] basicConfig =
     (Inr (Some 0),
      logging INFO
        (''The target '' @ dq @ ''server'' @ dq @
           (if path_exists ?w (''/proc/'' @ ''12345'') then '' is running.'' else '' is stopped.''))
        (setLevel_debug default_options basicConfig))"
    by (rule status_first_line [OF tp ex pf first line bare pre post ends slash])
  then have "main ?w ''openerp.py'' default_options [''status'', ''server''] basicConfig =
     (Inr (Some 0),
      \<lparr>threshold = INFO,
       stdout = [''INFO: The target '' @ dq @ ''server'' @ dq @ '' is running.''],
       commands = []\<rparr>)"
    using alive by (simp add: logging_def setLevel_debug_def basicConfig_def default_options_def)
  with pf alive show ?thesis
    by blast
qed

text \<open>
  The claim as written ("for every readable PID file") fails for a first line that begins
  with a slash: \<^verbatim>\<open>os.path.join('/proc', p)\<close> is then \<open>p\<close> itself. With the first line
  \<^verbatim>\<open>/etc/passwd\<close>, a file that exists, \<^verbatim>\<open>status\<close> reports the target running although
  there is no \<^verbatim>\<open>/proc//etc/passwd\<close>.
\<close>

theorem status_absolute_first_line_counterexample:
  "open_file (pidfile_world (''/etc/passwd'' @ [CHR 0x0A])) ''server/bin/server.pid''
     = Some (''/etc/passwd'' @ [CHR 0x0A])
   \<and> \<not> path_exists (pidfile_world (''/etc/passwd'' @ [CHR 0x0A])) (''/proc/'' @ ''/etc/passwd'')
   \<and> main (pidfile_world (''/etc/passwd'' @ [CHR 0x0A])) ''openerp.py''
        default_options [''status'', ''server''] basicConfig =
     (Inr (Some 0),
      \<lparr>threshold = INFO,
       stdout = [''INFO: The target '' @ dq @ ''server'' @ dq @ '' is running.''],
       commands = []\<rparr>)"
  by (simp add: main_def exit_def logging_def setLevel_debug_def demo_defs pidfile_world_def
      strip_def is_space_def Let_def)

subsection \<open>C5: status without a PID file\<close>

text \<open>
  C5. When the PID file cannot be opened, \<^verbatim>\<open>status\<close> does not report the target
  stopped: \<open>main\<close> is left by the \<^verbatim>\<open>IOError\<close> of \<^verbatim>\<open>open\<close> (the error the specification
  calls NoPidFile), nothing is written to the log, no command is run, and the process ends
  with status 1.
\<close>

theorem status_without_pidfile:
  assumes tp: "target_paths opts target = Some (program, pidfile)"
    and ex: "path_exists w program"
    and pf: "open_file w pidfile = None"
  shows "main w argv0 opts (''status'' # target # rest) st0 =
           (Inl (IOError pidfile), setLevel_debug opts st0)
       \<and> stdout (snd (main w argv0 opts (''status'' # target # rest) st0)) = stdout st0
       \<and> commands (snd (main w argv0 opts (''status'' # target # rest) st0)) = commands st0
       \<and> sys_exit (fst (main w argv0 opts (''status'' # target # rest) st0)) = 1"
  using pf by (simp add: main_dispatch [OF _ tp ex] sys_exit_def)

text \<open>
  An example: the web server's PID file does not exist.
\<close>

theorem status_without_pidfile_witness:
  "open_file (demo_world []) ''web/webserver.pid'' = None
   \<and> main (demo_world []) ''openerp.py'' default_options [''status'', ''webserver''] basicConfig =
       (Inl (IOError ''web/webserver.pid''), basicConfig)
   \<and> sys_exit (fst (main (demo_world []) ''openerp.py'' default_options [''status'', ''webserver'']
                        basicConfig)) = 1"
proof -
  let ?w = "demo_world []"
  have tp: "target_paths default_options ''webserver'' = Some (''web/openerp-web.py'', ''web/webserver.pid'')"
    by (simp add: demo_defs)
  have ex: "path_exists ?w ''web/openerp-web.py''"
    by (simp add: demo_defs)
  have pf: "open_file ?w ''web/webserver.pid'' = None"
    by (simp add: demo_defs)
  show ?thesis
    using status_without_pidfile [OF tp ex pf, of "''openerp.py''" "[]" basicConfig] pf
    by (simp add: setLevel_debug_def default_options_def sys_exit_def)
qed

subsection \<open>C6: a missing program file\<close>

text \<open>
  C6. For each of the two targets and any base directories, whatever the command: when
  the program file of the target does not exist, \<open>main\<close> returns 1 with the error that
  names the file, the process exits with status 1, and no command has been run.
\<close>

theorem program_not_found:
  assumes cmd: "command \<in> set [''start'', ''stop'', ''restart'', ''status'']"
    and tp: "target_paths opts target = Some (program, pidfile)"
    and ex: "\<not> path_exists w program"
  shows "main w argv0 opts (command # target # rest) st0 =
           (Inr (Some 1),
            logging ERROR (''The '' @ sq @ target @ sq @ '' program file doesn'' @ sq @ ''t exist: ''
                             @ program @ ''.'') (setLevel_debug opts st0))
       \<and> commands (snd (main w argv0 opts (command # target # rest) st0)) = commands st0
       \<and> sys_exit (fst (main w argv0 opts (command # target # rest) st0)) = 1"
proof -
  have "target \<in> set [''server'', ''webserver'']"
    using tp by (rule target_paths_Some)
  then have "main w argv0 opts (command # target # rest) st0 =
           (Inr (Some 1),
            logging ERROR (''The '' @ sq @ target @ sq @ '' program file doesn'' @ sq @ ''t exist: ''
                             @ program @ ''.'') (setLevel_debug opts st0))"
    using cmd tp ex unfolding main_def by (simp add: exit_def Let_def)
  then show ?thesis
    by (simp add: sys_exit_def)
qed

text \<open>
  An example: the server directory is \<^verbatim>\<open>/nowhere\<close>.
\<close>

theorem program_not_found_witness:
  "\<not> path_exists (demo_world []) ''/nowhere/bin/openerp-server.py''
   \<and> main (demo_world []) ''openerp.py'' (default_options\<lparr>server_dir := ''/nowhere''\<rparr>)
        [''start'', ''server''] basicConfig =
       (Inr (Some 1),
        \<lparr>threshold = INFO,
         stdout = [''ERROR: The '' @ sq @ ''server'' @ sq @ '' program file doesn'' @ sq
                     @ ''t exist: /nowhere/bin/openerp-server.py.''],
         commands = []\<rparr>)"
proof -
  let ?w = "demo_world []"
  let ?o = "default_options\<lparr>server_dir := ''/nowhere''\<rparr>"
  have cmd: "''start'' \<in> set [''start'', ''stop'', ''restart'', ''status'']"
    by simp
  have tp: "target_paths ?o ''server'' =
              Some (''/nowhere/bin/openerp-server.py'', ''/nowhere/bin/server.pid'')"
    by (simp add: demo_defs)
  have ex: "\<not> path_exists ?w ''/nowhere/bin/openerp-server.py''"
    by (simp add: demo_defs)
  show ?thesis
    using program_not_found [OF cmd tp ex, of "''openerp.py''" "[]" basicConfig] ex
    by (simp add: logging_def setLevel_debug_def basicConfig_def default_options_def)
qed

subsection \<open>C7: invalid arguments\<close>

text \<open>
  C7, as the code has it. When the option parser accepts the command line and the
  positional arguments it returns do not begin with one of the four commands followed by
  one of the two targets (fewer than two arguments, an unknown command, or an unknown
  target), the script exits with status 1 after the usage error, and no command has been
  run.
\<close>

theorem invalid_arguments:
  assumes parsed: "parse_args cmdline = Inr (opts, args)"
    and invalid: "\<not> (\<exists>command target rest.
                args = command # target # rest
                \<and> command \<in> set [''start'', ''stop'', ''restart'', ''status'']
                \<and> target \<in> set [''server'', ''webserver''])"
  shows "script w argv0 cmdline st0 =
           (1, logging ERROR (''ERROR: Use '' @ dq @ argv0 @ '' --help'' @ dq @ '' to get more informations.'')
                 (setLevel_debug opts st0))
       \<and> commands (snd (script w argv0 cmdline st0)) = commands st0"
  using parsed by (simp add: script_def main_invalid_arguments [OF invalid] sys_exit_def)

text \<open>
  An example: \<^verbatim>\<open>--user root start database\<close>.
\<close>

theorem invalid_arguments_witness:
  "parse_args [''--user'', ''root'', ''start'', ''database'']
     = Inr (default_options\<lparr>user := ''root''\<rparr>, [''start'', ''database''])
   \<and> script (demo_world []) ''openerp.py'' [''--user'', ''root'', ''start'', ''database''] basicConfig =
     (1,
      \<lparr>threshold = INFO,
       stdout = [''ERROR: ERROR: Use '' @ dq @ ''openerp.py --help'' @ dq @ '' to get more informations.''],
       commands = []\<rparr>)"
proof -
  have parsed: "parse_args [''--user'', ''root'', ''start'', ''database'']
     = Inr (default_options\<lparr>user := ''root''\<rparr>, [''start'', ''database''])"
    by (simp add: parse_args_def match_abbrev_def long_opts_def takes_value_def store_def)
  have invalid: "\<not> (\<exists>command target rest.
                [''start'', ''database''] = command # target # rest
                \<and> command \<in> set [''start'', ''stop'', ''restart'', ''status'']
                \<and> target \<in> set [''server'', ''webserver''])"
    by simp
  have "script (demo_world []) ''openerp.py'' [''--user'', ''root'', ''start'', ''database''] basicConfig =
          (1, logging ERROR (''ERROR: Use '' @ dq @ ''openerp.py'' @ '' --help'' @ dq
                               @ '' to get more informations.'')
                (setLevel_debug (default_options\<lparr>user := ''root''\<rparr>) basicConfig))"
    by (rule conjunct1 [OF invalid_arguments [OF parsed invalid]])
  then have "script (demo_world []) ''openerp.py'' [''--user'', ''root'', ''start'', ''database''] basicConfig =
     (1,
      \<lparr>threshold = INFO,
       stdout = [''ERROR: ERROR: Use '' @ dq @ ''openerp.py --help'' @ dq @ '' to get more informations.''],
       commands = []\<rparr>)"
    by (simp add: logging_def setLevel_debug_def basicConfig_def default_options_def)
  with parsed show ?thesis
    by blast
qed

text \<open>
  The claim as written ("every command-line invocation") fails where the option parser
  ends the process before \<^verbatim>\<open>main\<close> looks at the positional arguments: \<^verbatim>\<open>--help\<close>, with
  no positional argument at all, exits with status 0, and \<^verbatim>\<open>--bogus start database\<close>,
  with an unknown target, exits with status 2.
\<close>

theorem option_parser_exit_counterexample:
  "parse_args [''--help''] = Inl 0
   \<and> script (demo_world []) ''openerp.py'' [''--help''] basicConfig = (0, basicConfig)
   \<and> parse_args [''--bogus'', ''start'', ''database''] = Inl 2
   \<and> script (demo_world []) ''openerp.py'' [''--bogus'', ''start'', ''database''] basicConfig
       = (2, basicConfig)"
  by (simp add: script_def parse_args_def match_abbrev_def long_opts_def takes_value_def)

subsection \<open>C8: stopping twice\<close>

text \<open>
  C8. Let the stop command return 0 the first time and 1 when it is run again after
  that. Then the first \<^verbatim>\<open>stop\<close> invocation returns 0 and reports the target stopped, and a
  second invocation, started once the first has run its command, returns 1 with the error
  \<^verbatim>\<open>The process is not running !\<close>: the already-in-state outcome, not the failure branch
  with the captured output.
\<close>

theorem stop_twice:
  assumes tp: "target_paths opts target = Some (program, pidfile)"
    and ex: "path_exists w program"
    and first: "run_command w (commands st0) (STOP_COMMAND pidfile) = Inr (0, out1, err1)"
    and second: "run_command w (commands st0 @ [STOP_COMMAND pidfile]) (STOP_COMMAND pidfile)
                   = Inr (1, out2, err2)"
    and after: "commands st1 = commands st0 @ [STOP_COMMAND pidfile]"
  shows "main w argv0 opts (''stop'' # target # rest) st0 =
           (Inr (Some 0),
            logging INFO (''The target '' @ dq @ target @ dq @ '' has been stopped correctly.'')
              (ran (STOP_COMMAND pidfile) 0 (setLevel_debug opts st0)))
       \<and> commands (snd (main w argv0 opts (''stop'' # target # rest) st0))
           = commands st0 @ [STOP_COMMAND pidfile]
       \<and> main w argv0 opts (''stop'' # target # rest) st1 =
           (Inr (Some 1),
            logging ERROR ''The process is not running !''
              (ran (STOP_COMMAND pidfile) 1 (setLevel_debug opts st1)))"
proof -
  have a: "stop w pidfile (setLevel_debug opts st0) =
             (Inr 0, ran (STOP_COMMAND pidfile) 0 (setLevel_debug opts st0))"
    using stop_returned [of w "setLevel_debug opts st0" pidfile 0 out1 err1] first by simp
  have b: "stop w pidfile (setLevel_debug opts st1) =
             (Inr 1, logging ERROR ''The process is not running !''
                       (ran (STOP_COMMAND pidfile) 1 (setLevel_debug opts st1)))"
    using stop_returned [of w "setLevel_debug opts st1" pidfile 1 out2 err2] second after by simp
  show ?thesis
    by (simp add: main_dispatch [OF _ tp ex] a b)
qed

text \<open>
  An example with the default options.
\<close>

theorem stop_twice_witness:
  "main (demo_world [(0, [], []), (1, [], [])]) ''openerp.py'' default_options [''stop'', ''server'']
     basicConfig =
     (Inr (Some 0),
      \<lparr>threshold = INFO,
       stdout = [''INFO: The target '' @ dq @ ''server'' @ dq @ '' has been stopped correctly.''],
       commands = [STOP_COMMAND ''server/bin/server.pid'']\<rparr>)
   \<and> main (demo_world [(0, [], []), (1, [], [])]) ''openerp.py'' default_options [''stop'', ''server'']
       (basicConfig\<lparr>commands := [STOP_COMMAND ''server/bin/server.pid'']\<rparr>) =
     (Inr (Some 1),
      \<lparr>threshold = INFO,
       stdout = [''ERROR: The process is not running !''],
       commands = [STOP_COMMAND ''server/bin/server.pid'', STOP_COMMAND ''server/bin/server.pid'']\<rparr>)"
proof -
  let ?w = "demo_world [(0, [], []), (1, [], [])]"
  let ?c = "STOP_COMMAND ''server/bin/server.pid''"
  have tp: "target_paths default_options ''server'' =
              Some (''server/bin/openerp-server.py'', ''server/bin/server.pid'')"
    by (simp add: demo_defs)
  have ex: "path_exists ?w ''server/bin/openerp-server.py''"
    by (simp add: demo_defs)
  have first: "run_command ?w (commands basicConfig) ?c = Inr (0, [], [])"
    by (simp add: demo_defs)
  have second: "run_command ?w (commands basicConfig @ [?c]) ?c = Inr (1, [], [])"
    by (simp add: demo_defs)
  have after: "commands (basicConfig\<lparr>commands := [?c]\<rparr>) = commands basicConfig @ [?c]"
    by (simp add: basicConfig_def)
  show ?thesis
    using stop_twice [OF tp ex first second after, of "''openerp.py''" "[]"]
    by (simp add: ran_def logging_def setLevel_debug_def basicConfig_def default_options_def)
qed

subsection \<open>C9: the user option\<close>



subsection \<open>C10: a negative return code counts as success\<close>

text \<open>
  C10. When the command returns a negative code \<open>r\<close>, \<open>start\<close> returns 0 and \<open>stop\<close>
  returns 0, neither logs an error, and the \<^verbatim>\<open>start\<close> and \<^verbatim>\<open>stop\<close> invocations return 0
  and report that the target has been started, respectively stopped, correctly.
\<close>

theorem negative_returncode_is_success:
  assumes neg: "r < 0"
  shows "(run_command w (commands st) (START_COMMAND program directory pidfile) = Inr (r, output, error)
            \<longrightarrow> start w directory program pidfile st =
                  (Inr 0, ran (START_COMMAND program directory pidfile) r st))
       \<and> (run_command w (commands st) (STOP_COMMAND pidfile) = Inr (r, output, error)
            \<longrightarrow> stop w pidfile st = (Inr 0, ran (STOP_COMMAND pidfile) r st))
       \<and> (target_paths opts target = Some (program, pidfile) \<and> path_exists w program
            \<and> run_command w (commands st) (START_COMMAND program (getcwd w) pidfile) = Inr (r, output, error)
            \<longrightarrow> main w argv0 opts (''start'' # target # rest) st =
                  (Inr (Some 0),
                   logging INFO (''The target '' @ dq @ target @ dq @ '' has been started correctly.'')
                     (ran (START_COMMAND program (getcwd w) pidfile) r (setLevel_debug opts st))))
       \<and> (target_paths opts target = Some (program, pidfile) \<and> path_exists w program
            \<and> run_command w (commands st) (STOP_COMMAND pidfile) = Inr (r, output, error)
            \<longrightarrow> main w argv0 opts (''stop'' # target # rest) st =
                  (Inr (Some 0),
                   logging INFO (''The target '' @ dq @ target @ dq @ '' has been stopped correctly.'')
                     (ran (STOP_COMMAND pidfile) r (setLevel_debug opts st))))"
proof (intro conjI impI)
  assume "run_command w (commands st) (START_COMMAND program directory pidfile) = Inr (r, output, error)"
  from start_returned [OF this] neg
  show "start w directory program pidfile st = (Inr 0, ran (START_COMMAND program directory pidfile) r st)"
    by simp
next
  assume "run_command w (commands st) (STOP_COMMAND pidfile) = Inr (r, output, error)"
  from stop_returned [OF this] neg
  show "stop w pidfile st = (Inr 0, ran (STOP_COMMAND pidfile) r st)"
    by simp
next
  assume h: "target_paths opts target = Some (program, pidfile) \<and> path_exists w program
            \<and> run_command w (commands st) (START_COMMAND program (getcwd w) pidfile) = Inr (r, output, error)"
  then have tp: "target_paths opts target = Some (program, pidfile)" and ex: "path_exists w program"
    and run: "run_command w (commands (setLevel_debug opts st)) (START_COMMAND program (getcwd w) pidfile)
                = Inr (r, output, error)"
    by simp_all
  from start_returned [OF run] neg
  have "start w (getcwd w) program pidfile (setLevel_debug opts st) =
          (Inr 0, ran (START_COMMAND program (getcwd w) pidfile) r (setLevel_debug opts st))"
    by simp
  then show "main w argv0 opts (''start'' # target # rest) st =
                  (Inr (Some 0),
                   logging INFO (''The target '' @ dq @ target @ dq @ '' has been started correctly.'')
                     (ran (START_COMMAND program (getcwd w) pidfile) r (setLevel_debug opts st)))"
    by (simp add: main_dispatch [OF _ tp ex])
next
  assume h: "target_paths opts target = Some (program, pidfile) \<and> path_exists w program
            \<and> run_command w (commands st) (STOP_COMMAND pidfile) = Inr (r, output, error)"
  then have tp: "target_paths opts target = Some (program, pidfile)" and ex: "path_exists w program"
    and run: "run_command w (commands (setLevel_debug opts st)) (STOP_COMMAND pidfile)
                = Inr (r, output, error)"
    by simp_all
  from stop_returned [OF run] neg
  have "stop w pidfile (setLevel_debug opts st) =
          (Inr 0, ran (STOP_COMMAND pidfile) r (setLevel_debug opts st))"
    by simp
  then show "main w argv0 opts (''stop'' # target # rest) st =
                  (Inr (Some 0),
                   logging INFO (''The target '' @ dq @ target @ dq @ '' has been stopped correctly.'')
                     (ran (STOP_COMMAND pidfile) r (setLevel_debug opts st)))"
    by (simp add: main_dispatch [OF _ tp ex])
qed

text \<open>
  An example with \<open>r = -15\<close> and \<^verbatim>\<open>--debug\<close>, which shows the return code in the log.
\<close>

theorem negative_returncode_is_success_witness:
  "(- 15 :: int) < 0
   \<and> run_command (demo_world [(- 15, [], [])]) (commands basicConfig)
       (START_COMMAND ''server/bin/openerp-server.py'' ''/opt/openerp'' ''server/bin/server.pid'')
       = Inr (- 15, [], [])
   \<and> main (demo_world [(- 15, [], [])]) ''openerp.py'' (default_options\<lparr>debug := True\<rparr>)
       [''start'', ''server''] basicConfig =
     (Inr (Some 0),
      \<lparr>threshold = DEBUG,
       stdout = [''DEBUG: Running '' @ dq
                   @ START_COMMAND ''server/bin/openerp-server.py'' ''/opt/openerp'' ''server/bin/server.pid''
                   @ dq @ '', returncode=-15.'',
                 ''INFO: The target '' @ dq @ ''server'' @ dq @ '' has been started correctly.''],
       commands = [START_COMMAND ''server/bin/openerp-server.py'' ''/opt/openerp'' ''server/bin/server.pid'']\<rparr>)"
proof -
  let ?w = "demo_world [(- 15, [], [])]"
  let ?o = "default_options\<lparr>debug := True\<rparr>"
  let ?c = "START_COMMAND ''server/bin/openerp-server.py'' ''/opt/openerp'' ''server/bin/server.pid''"
  have neg: "(- 15 :: int) < 0"
    by simp
  have tp: "target_paths ?o ''server'' = Some (''server/bin/openerp-server.py'', ''server/bin/server.pid'')"
    by (simp add: demo_defs)
  have ex: "path_exists ?w ''server/bin/openerp-server.py''"
    by (simp add: demo_defs)
  have g: "getcwd ?w = ''/opt/openerp''"
    by (simp add: demo_defs)
  have run: "run_command ?w (commands basicConfig) ?c = Inr (- 15, [], [])"
    by (simp add: demo_defs)
  have d: "str_int (- 15) = ''-15''"
    by code_simp
  have "main ?w ''openerp.py'' ?o (''start'' # ''server'' # []) basicConfig =
          (Inr (Some 0),
           logging INFO (''The target '' @ dq @ ''server'' @ dq @ '' has been started correctly.'')
             (ran ?c (- 15) (setLevel_debug ?o basicConfig)))"
    using negative_returncode_is_success [OF neg, where w = ?w and st = basicConfig
        and program = "''server/bin/openerp-server.py''" and pidfile = "''server/bin/server.pid''"
        and ?output = "[]" and error = "[]" and opts = ?o and target = "''server''"
        and ?argv0.0 = "''openerp.py''" and rest = "[]"]
      tp ex run g
    by simp
  then show ?thesis
    using neg run by (simp add: ran_def logging_def setLevel_debug_def basicConfig_def default_options_def d)
qed

end
